theory Spec2Isabelle
  imports Main
begin

section \<open>Syntax tree\<close>

text \<open>
  The fragment of the @babel/parser tree that \<^verbatim>\<open>codemods/react-to-star-import.ts\<close> reads.
  A node keeps its original span (\<open>start\<close>, \<open>end\<close>) when it comes from the parser; a node made
  by a builder of @babel/types has none. Fields the code never reads (\<open>importKind\<close>,
  comments, ...) are left out.
\<close>

type_synonym loc = "(nat \<times> nat) option"

datatype identifier_node = Identifier (name: string) loc

datatype specifier =
    ImportDefaultSpecifier identifier_node loc
  | ImportNamespaceSpecifier identifier_node loc
  | ImportSpecifier identifier_node identifier_node loc

text \<open>
  The \<open>source\<close> of an import declaration. @babel/parser produces \<open>StringLiteral\<close>; a parser
  in the ESTree format would produce \<open>Literal\<close> (the comment in \<^verbatim>\<open>transformFile\<close> warns of
  the difference), and the codemod tests the tag.
\<close>

datatype source_node = StringLiteral string loc | Literal string loc

text \<open>
  Statements: import declarations, blocks (statements nest: the parser is run with
  \<open>allowImportExportEverywhere\<close>, so an import declaration may stand inside a block), and any
  other statement, kept as its text.
\<close>

datatype statement =
    ImportDeclaration "specifier list" source_node loc
  | BlockStatement "statement list" loc
  | ExpressionStatement string loc

datatype program = Program (body: "statement list")

section \<open>The codemod \<^verbatim>\<open>react-to-star-import\<close>\<close>

text \<open>\<^verbatim>\<open>t.importNamespaceSpecifier(local)\<close>: a fresh node around the given identifier node.\<close>

definition importNamespaceSpecifier :: "identifier_node \<Rightarrow> specifier" where
  "importNamespaceSpecifier localIdent = ImportNamespaceSpecifier localIdent None"

text \<open>
  \<^verbatim>\<open>for (let i = 0; i < statement.specifiers.length; i++)\<close>, with the assignment
  \<^verbatim>\<open>statement.specifiers[i] = newSpecifier\<close>.
\<close>

function specifiers_loop :: "nat \<Rightarrow> specifier list \<Rightarrow> specifier list" where
  "specifiers_loop i specifiers =
     (if i < length specifiers then
        (case specifiers ! i of
           ImportDefaultSpecifier localIdent _ \<Rightarrow>
             specifiers_loop (Suc i) (specifiers[i := importNamespaceSpecifier localIdent])
         | ImportNamespaceSpecifier _ _ \<Rightarrow> specifiers_loop (Suc i) specifiers
         | ImportSpecifier _ _ _ \<Rightarrow> specifiers_loop (Suc i) specifiers)
      else specifiers)"
  by pat_completeness auto
termination
  by (relation "measure (\<lambda>(i, specifiers). length specifiers - i)") auto

declare specifiers_loop.simps [simp del]

text \<open>The body of \<^verbatim>\<open>for (const statement of ast.body)\<close>.\<close>

fun codemod_statement :: "statement \<Rightarrow> statement" where
  "codemod_statement (ImportDeclaration specifiers (StringLiteral v sl) l) =
     (if v = ''react''
      then ImportDeclaration (specifiers_loop 0 specifiers) (StringLiteral v sl) l
      else ImportDeclaration specifiers (StringLiteral v sl) l)"
| "codemod_statement (ImportDeclaration specifiers (Literal v sl) l) =
     ImportDeclaration specifiers (Literal v sl) l"
| "codemod_statement (BlockStatement stmts l) = BlockStatement stmts l"
| "codemod_statement (ExpressionStatement e l) = ExpressionStatement e l"

text \<open>
  The codemod mutates the tree in place and returns nothing; the model returns the tree after
  the call. \<open>filepath\<close> and \<open>source\<close> are accepted and not used, as in the source.
\<close>

definition codemod :: "program \<Rightarrow> string \<Rightarrow> string \<Rightarrow> program" where
  "codemod ast filepath source = Program (map codemod_statement (body ast))"

section \<open>Errors\<close>

text \<open>
  \<open>Error\<close> is what the source throws itself (\<^verbatim>\<open>new Error(message)\<close>); \<open>TypeError\<close> is
  raised by the runtime on a call; \<open>SyntaxError\<close> comes from the parser and \<open>SystemError\<close> from
  \<^verbatim>\<open>fs\<close>.
\<close>

datatype error =
    Error string
  | TypeError
  | SyntaxError string
  | SystemError string

section \<open>The registry \<^verbatim>\<open>codemods/index.ts\<close>\<close>

type_synonym codemod_fn = "program \<Rightarrow> string \<Rightarrow> string \<Rightarrow> program"

definition codemods :: "(string \<times> codemod_fn) list" where
  "codemods = [(''react-to-star-import'', codemod)]"

text \<open>\<^verbatim>\<open>Object.keys(codemods)\<close>: the object's own keys, in insertion order.\<close>

definition object_keys :: "(string \<times> codemod_fn) list \<Rightarrow> string list" where
  "object_keys obj = map fst obj"

text \<open>
  \<^verbatim>\<open>codemods[codemodName]\<close> is a property read on an object literal, so a key the object does
  not own is looked up on \<open>Object.prototype\<close>. The value read is one of the registered
  functions, a method of \<open>Object.prototype\<close>, the prototype object itself (\<open>__proto__\<close>), or
  \<open>undefined\<close> (\<open>None\<close>).
\<close>

datatype property_value =
    Registered codemod_fn
  | PrototypeMethod string
  | PrototypeObject

definition object_prototype_methods :: "string list" where
  "object_prototype_methods =
     [''constructor'', ''__defineGetter__'', ''__defineSetter__'', ''hasOwnProperty'',
      ''__lookupGetter__'', ''__lookupSetter__'', ''isPrototypeOf'', ''propertyIsEnumerable'',
      ''toString'', ''valueOf'', ''toLocaleString'']"

definition get_property :: "string \<Rightarrow> property_value option" where
  "get_property key =
     (case map_of codemods key of
        Some f \<Rightarrow> Some (Registered f)
      | None \<Rightarrow>
          if key = ''__proto__'' then Some PrototypeObject
          else if key \<in> set object_prototype_methods then Some (PrototypeMethod key)
          else None)"

text \<open>
  \<^verbatim>\<open>codemod(program, filepath, source)\<close>. A registered codemod runs. \<open>Object\<close>
  (\<open>constructor\<close>) returns its argument and \<open>Object.prototype.toString\<close> returns a string,
  both without touching the tree; the other methods of \<open>Object.prototype\<close> convert their
  \<open>this\<close>, which is \<open>undefined\<close> in a plain call, to an object and raise a TypeError; the
  prototype object is not callable.
\<close>

fun call_codemod :: "property_value \<Rightarrow> program \<Rightarrow> string \<Rightarrow> string \<Rightarrow> error + program" where
  "call_codemod (Registered f) ast filepath source = Inr (f ast filepath source)"
| "call_codemod (PrototypeMethod key) ast filepath source =
     (if key = ''constructor'' \<or> key = ''toString'' then Inr ast else Inl TypeError)"
| "call_codemod PrototypeObject ast filepath source = Inl TypeError"

section \<open>\<^verbatim>\<open>transformFile\<close>\<close>

text \<open>
  recast, @babel/parser and globby are libraries outside the repository; the model takes them
  as parameters. \<open>recast_parse source filepath\<close> stands for the call of \<^verbatim>\<open>recast.parse\<close> with
  the Babel options of the source; it returns the File node or raises. The File node holds the
  program and what recast keeps of the original text for reprinting. \<open>recast_print\<close> stands
  for \<^verbatim>\<open>recast.print(ast).code\<close> and \<open>globby_sync\<close> for \<^verbatim>\<open>globby.sync\<close>.
\<close>

record file_node =
  program :: program
  original :: string

record library =
  recast_parse :: "string \<Rightarrow> string \<Rightarrow> error + file_node"
  recast_print :: "file_node \<Rightarrow> string"
  globby_sync :: "string \<Rightarrow> string list"

text \<open>\<^verbatim>\<open>Array.prototype.join\<close>.\<close>

fun join :: "string \<Rightarrow> string list \<Rightarrow> string" where
  "join sep [] = []"
| "join sep [x] = x"
| "join sep (x # y # ys) = x @ sep @ join sep (y # ys)"

definition no_such_codemod :: "string \<Rightarrow> error" where
  "no_such_codemod codemodName =
     Error (''No such codemod: '' @ codemodName @ ''. Valid codemod names: ''
            @ join '', '' (object_keys codemods) @ ''.'')"

definition transformFile :: "library \<Rightarrow> string \<Rightarrow> string \<Rightarrow> string \<Rightarrow> error + string" where
  "transformFile lib codemodName filepath source =
     (case recast_parse lib source filepath of
        Inl err \<Rightarrow> Inl err
      | Inr ast \<Rightarrow>
          (case get_property codemodName of
             None \<Rightarrow> Inl (no_such_codemod codemodName)
           | Some codemod_value \<Rightarrow>
               (case call_codemod codemod_value (program ast) filepath source of
                  Inl err \<Rightarrow> Inl err
                | Inr program' \<Rightarrow> Inr (recast_print lib (ast\<lparr>program := program'\<rparr>)))))"

section \<open>The file system and the console\<close>

text \<open>
  The world a run acts on: the content of every file that exists, by path; the paths that
  cannot be written (\<^verbatim>\<open>fs.writeFileSync\<close> raises there); and what has been printed by
  \<^verbatim>\<open>console.log\<close> and \<^verbatim>\<open>console.error\<close>, one entry per call. The colours that chalk adds
  are not part of the entries.
\<close>

record world =
  files :: "string \<rightharpoonup> string"
  unwritable :: "string set"
  stdout :: "string list"
  stderr :: "string list"

definition console_log :: "string \<Rightarrow> world \<Rightarrow> world" where
  "console_log line w = w\<lparr>stdout := stdout w @ [line]\<rparr>"

definition console_error :: "string \<Rightarrow> world \<Rightarrow> world" where
  "console_error line w = w\<lparr>stderr := stderr w @ [line]\<rparr>"

definition readFileSync :: "world \<Rightarrow> string \<Rightarrow> error + string" where
  "readFileSync w file =
     (case files w file of None \<Rightarrow> Inl (SystemError ''ENOENT'') | Some content \<Rightarrow> Inr content)"

definition writeFileSync :: "world \<Rightarrow> string \<Rightarrow> string \<Rightarrow> error + world" where
  "writeFileSync w file content =
     (if file \<in> unwritable w then Inl (SystemError ''EACCES'')
      else Inr (w\<lparr>files := (files w)(file \<mapsto> content)\<rparr>))"

section \<open>Strings\<close>

text \<open>
  \<^verbatim>\<open>String.prototype.trim\<close>, on the white space and line terminators that a \<open>char\<close> can hold
  (tab, line feed, vertical tab, form feed, carriage return, space).
\<close>

definition is_white_space :: "char \<Rightarrow> bool" where
  "is_white_space c = (c \<in> set [CHR 0x09, CHR 0x0A, CHR 0x0B, CHR 0x0C, CHR 0x0D, CHR 0x20])"

definition trim :: "string \<Rightarrow> string" where
  "trim s = rev (dropWhile is_white_space (rev (dropWhile is_white_space s)))"

text \<open>A number inside a template literal: its decimal digits.\<close>

fun show_nat :: "nat \<Rightarrow> string" where
  "show_nat n =
     (if n < 10 then [''0123456789'' ! n]
      else show_nat (n div 10) @ [''0123456789'' ! (n mod 10)])"

declare show_nat.simps [simp del]

text \<open>Reading an array element: \<open>undefined\<close> (\<open>None\<close>) outside the array.\<close>

definition element :: "'a list \<Rightarrow> nat \<Rightarrow> 'a option" where
  "element xs i = (if i < length xs then Some (xs ! i) else None)"

text \<open>\<^verbatim>\<open>process.argv.splice(1, 1)\<close>: the element at index 1 is removed.\<close>

definition splice_1_1 :: "'a list \<Rightarrow> 'a list" where
  "splice_1_1 xs = take 1 xs @ drop 2 xs"

text \<open>
  \<^verbatim>\<open>err.stack\<close>: the name and the message of the error. The frames that follow
  (\<open>at ...\<close>) depend on the runtime and are not modelled.
\<close>

fun stack :: "error \<Rightarrow> string" where
  "stack (Error message) = ''Error: '' @ message"
| "stack TypeError = ''TypeError''"
| "stack (SyntaxError message) = ''SyntaxError: '' @ message"
| "stack (SystemError code) = ''Error: '' @ code"

section \<open>\<^verbatim>\<open>main\<close>\<close>

definition missing_codemod_name :: error where
  "missing_codemod_name =
     Error (''You must specify a codemod to run as the first command-line argument. ''
            @ ''Valid codemod names: '' @ join '', '' (object_keys codemods) @ ''.'')"

definition default_glob :: string where
  "default_glob = ''./src/**/*.{js,jsx,ts,tsx}''"

text \<open>
  The body of \<^verbatim>\<open>for (const file of files)\<close> and the loop. An exception leaves the loop with
  the world as it is at that moment.
\<close>

definition transform_one :: "library \<Rightarrow> string \<Rightarrow> string \<Rightarrow> world \<Rightarrow> (error + unit) \<times> world" where
  "transform_one lib codemodName file w =
     (let w1 = console_log (''\<newline>Transforming: '' @ file) w in
      case readFileSync w1 file of
        Inl err \<Rightarrow> (Inl err, w1)
      | Inr source \<Rightarrow>
          (let w2 = console_log (trim source) (console_log ''--- Before: ---'' w1) in
           case transformFile lib codemodName file source of
             Inl err \<Rightarrow> (Inl err, w2)
           | Inr newSource \<Rightarrow>
               (let w3 = console_log ''------\<newline>''
                           (console_log (trim newSource) (console_log ''--- After: ---'' w2)) in
                case writeFileSync w3 file newSource of
                  Inl err \<Rightarrow> (Inl err, w3)
                | Inr w4 \<Rightarrow> (Inr (), w4))))"

fun transform_all :: "library \<Rightarrow> string \<Rightarrow> string list \<Rightarrow> world \<Rightarrow> (error + unit) \<times> world" where
  "transform_all lib codemodName [] w = (Inr (), w)"
| "transform_all lib codemodName (file # rest) w =
     (case transform_one lib codemodName file w of
        (Inl err, w') \<Rightarrow> (Inl err, w')
      | (Inr _, w') \<Rightarrow> transform_all lib codemodName rest w')"

text \<open>The two messages printed before the loop.\<close>

definition found_message :: "string list \<Rightarrow> string" where
  "found_message fs =
     ''Found '' @ show_nat (length fs) @ '' file'' @ (if length fs = 1 then [] else ''s'')
     @ '' to run the codemod on'' @ (if length fs = 0 then ''.'' else '':'')"

definition files_message :: "string list \<Rightarrow> string" where
  "files_message fs =
     ''- '' @ join ''\<newline>- '' (take 2 fs)
     @ (if length fs > 2 then ''\<newline> - ...and '' @ show_nat (length fs - 2) @ '' more'' else [])"

text \<open>
  \<^verbatim>\<open>process.argv[3] || "./src/**/*.{js,jsx,ts,tsx}"\<close>: the default stands in when the
  argument is absent or the empty string.
\<close>

definition glob_argument :: "string list \<Rightarrow> string" where
  "glob_argument argv' =
     (case element argv' 3 of
        None \<Rightarrow> default_glob
      | Some g \<Rightarrow> if g = [] then default_glob else g)"

text \<open>
  \<^verbatim>\<open>!codemodName\<close> holds when the argument is absent or the empty string.
\<close>

definition main :: "library \<Rightarrow> string list \<Rightarrow> world \<Rightarrow> (error + unit) \<times> world" where
  "main lib argv w =
     (let argv' = splice_1_1 argv;
          w1 = console_log ''\<newline>\<newline>--- Starting codemod run. ---'' w
      in case element argv' 2 of
           None \<Rightarrow> (Inl missing_codemod_name, w1)
         | Some codemodName \<Rightarrow>
             if codemodName = [] then (Inl missing_codemod_name, w1)
             else
               (let glob = glob_argument argv';
                    w2 = console_log (''Searching for files matching: '' @ glob) w1;
                    fs = globby_sync lib glob;
                    w3 = console_log (found_message fs) w2;
                    w4 = (if length fs > 0 then console_log (files_message fs) w3 else w3)
                in case transform_all lib codemodName fs w4 of
                     (Inl err, w5) \<Rightarrow> (Inl err, w5)
                   | (Inr _, w5) \<Rightarrow> (Inr (), console_log ''All done!'' w5)))"

section \<open>The script: \<^verbatim>\<open>try { main(); } catch (err) { ... }\<close>\<close>

text \<open>
  The result is the exception that leaves the script, if any, and the world at the end.
\<close>

definition script :: "library \<Rightarrow> string list \<Rightarrow> world \<Rightarrow> error option \<times> world" where
  "script lib argv w =
     (case main lib argv w of
        (Inr _, w') \<Rightarrow> (None, w')
      | (Inl err, w') \<Rightarrow>
          (None, console_error (stack err) (console_error ''Codemod failed:'' w')))"

text \<open>
  The exit status of the process. The source never calls \<^verbatim>\<open>process.exit\<close> and never
  assigns \<^verbatim>\<open>process.exitCode\<close>, so the status is the runtime's: 1 when an exception leaves
  the script uncaught, 0 when the script runs to its end.
\<close>

definition exit_status :: "error option \<Rightarrow> nat" where
  "exit_status uncaught = (case uncaught of None \<Rightarrow> 0 | Some _ \<Rightarrow> 1)"

section \<open>Vocabulary of the properties\<close>

text \<open>
  What the codemod's comment says happens to one specifier: a default specifier becomes a
  namespace specifier around the same local identifier node, any other specifier stays.
  The loop \<open>specifiers_loop\<close> is compared with it below.
\<close>

fun replace_default :: "specifier \<Rightarrow> specifier" where
  "replace_default (ImportDefaultSpecifier localIdent l) = ImportNamespaceSpecifier localIdent None"
| "replace_default (ImportNamespaceSpecifier localIdent l) = ImportNamespaceSpecifier localIdent l"
| "replace_default (ImportSpecifier imported localIdent l) = ImportSpecifier imported localIdent l"

fun is_default :: "specifier \<Rightarrow> bool" where
  "is_default (ImportDefaultSpecifier localIdent l) = True"
| "is_default (ImportNamespaceSpecifier localIdent l) = False"
| "is_default (ImportSpecifier imported localIdent l) = False"

text \<open>An import declaration from the string literal \<open>"react"\<close> that has a default specifier.\<close>

fun default_import_from_react :: "statement \<Rightarrow> bool" where
  "default_import_from_react (ImportDeclaration specifiers (StringLiteral v sl) l) =
     (v = ''react'' \<and> list_ex is_default specifiers)"
| "default_import_from_react (ImportDeclaration specifiers (Literal v sl) l) = False"
| "default_import_from_react (BlockStatement stmts l) = False"
| "default_import_from_react (ExpressionStatement e l) = False"

text \<open>Every import declaration of a tree, at any depth.\<close>

fun import_declarations :: "statement \<Rightarrow> statement list" where
  "import_declarations (ImportDeclaration specifiers source l) =
     [ImportDeclaration specifiers source l]"
| "import_declarations (BlockStatement stmts l) = concat (map import_declarations stmts)"
| "import_declarations (ExpressionStatement e l) = []"

definition all_import_declarations :: "program \<Rightarrow> statement list" where
  "all_import_declarations ast = concat (map import_declarations (body ast))"

text \<open>
  What one file of a run comes to, on the world the run starts from: the error raised while
  the file is read, transformed or written, or the text written to it.
\<close>

definition file_result :: "library \<Rightarrow> string \<Rightarrow> world \<Rightarrow> string \<Rightarrow> error + string" where
  "file_result lib codemodName w file =
     (case readFileSync w file of
        Inl err \<Rightarrow> Inl err
      | Inr source \<Rightarrow>
          (case transformFile lib codemodName file source of
             Inl err \<Rightarrow> Inl err
           | Inr newSource \<Rightarrow>
               if file \<in> unwritable w then Inl (SystemError ''EACCES'') else Inr newSource))"

text \<open>The lines a file adds to the output when it is transformed and written.\<close>

definition file_report :: "library \<Rightarrow> string \<Rightarrow> world \<Rightarrow> string \<Rightarrow> string list" where
  "file_report lib codemodName w file =
     [''\<newline>Transforming: '' @ file,
      ''--- Before: ---'',
      trim (projr (readFileSync w file)),
      ''--- After: ---'',
      trim (projr (file_result lib codemodName w file)),
      ''------\<newline>'']"

section \<open>Sample inputs\<close>

text \<open>
  The three import statements of the scenario, with the trees @babel/parser gives for them,
  and blocks that hold an import declaration.
\<close>

definition default_react_source :: string where
  "default_react_source = ''import React from \"react\";''"

definition default_react_tree :: program where
  "default_react_tree =
     Program [ImportDeclaration
                [ImportDefaultSpecifier (Identifier ''React'' (Some (7, 12))) (Some (7, 12))]
                (StringLiteral ''react'' (Some (18, 25))) (Some (0, 26))]"

definition star_react_source :: string where
  "star_react_source = ''import * as React from \"react\";''"

definition star_react_tree :: program where
  "star_react_tree =
     Program [ImportDeclaration
                [ImportNamespaceSpecifier (Identifier ''React'' (Some (7, 12))) None]
                (StringLiteral ''react'' (Some (18, 25))) (Some (0, 26))]"

definition named_react_source :: string where
  "named_react_source = ''import { useState } from \"react\";''"

definition named_react_tree :: program where
  "named_react_tree =
     Program [ImportDeclaration
                [ImportSpecifier (Identifier ''useState'' (Some (9, 17)))
                   (Identifier ''useState'' (Some (9, 17))) (Some (9, 17))]
                (StringLiteral ''react'' (Some (25, 32))) (Some (0, 33))]"

definition other_module_source :: string where
  "other_module_source = ''import Something from \"other-module\";''"

definition other_module_tree :: program where
  "other_module_tree =
     Program [ImportDeclaration
                [ImportDefaultSpecifier (Identifier ''Something'' (Some (7, 16))) (Some (7, 16))]
                (StringLiteral ''other-module'' (Some (22, 36))) (Some (0, 37))]"

text \<open>\<^verbatim>\<open>import Foo, { useState } from "react";\<close> followed by \<^verbatim>\<open>run();\<close> on the next line.\<close>

definition mixed_react_tree :: program where
  "mixed_react_tree =
     Program [ImportDeclaration
                [ImportDefaultSpecifier (Identifier ''Foo'' (Some (7, 10))) (Some (7, 10)),
                 ImportSpecifier (Identifier ''useState'' (Some (14, 22)))
                   (Identifier ''useState'' (Some (14, 22))) (Some (14, 22))]
                (StringLiteral ''react'' (Some (30, 37))) (Some (0, 38)),
              ExpressionStatement ''run()'' (Some (39, 45))]"

text \<open>\<^verbatim>\<open>{ import React from "react"; }\<close>\<close>

definition nested_react_source :: string where
  "nested_react_source = ''{ import React from \"react\"; }''"

definition nested_react_tree :: program where
  "nested_react_tree =
     Program [BlockStatement
                [ImportDeclaration
                   [ImportDefaultSpecifier (Identifier ''React'' (Some (9, 14))) (Some (9, 14))]
                   (StringLiteral ''react'' (Some (20, 27))) (Some (2, 28))]
                (Some (0, 30))]"

text \<open>\<^verbatim>\<open>{ { import R from "react"; } }\<close>\<close>

definition deep_react_source :: string where
  "deep_react_source = ''{ { import R from \"react\"; } }''"

definition deep_react_tree :: program where
  "deep_react_tree =
     Program [BlockStatement
                [BlockStatement
                   [ImportDeclaration
                      [ImportDefaultSpecifier (Identifier ''R'' (Some (11, 12))) (Some (11, 12))]
                      (StringLiteral ''react'' (Some (18, 25))) (Some (4, 26))]
                   (Some (2, 28))]
                (Some (0, 30))]"

text \<open>
  The libraries on the sample inputs: the parser on the three import statements (any other
  text is answered with a syntax error, as \<^verbatim>\<open>((\<close> is), the printer on their trees before
  and after the codemod, and a directory of three files for the globs.
\<close>

definition sample_library :: library where
  "sample_library =
     \<lparr>recast_parse = (\<lambda>source filepath.
         if source = default_react_source
         then Inr \<lparr>program = default_react_tree, original = source\<rparr>
         else if source = named_react_source
         then Inr \<lparr>program = named_react_tree, original = source\<rparr>
         else if source = other_module_source
         then Inr \<lparr>program = other_module_tree, original = source\<rparr>
         else Inl (SyntaxError ''Unexpected token (1:2)'')),
      recast_print = (\<lambda>ast.
         if program ast = star_react_tree then star_react_source else original ast),
      globby_sync = (\<lambda>glob.
         if glob = ''a.js'' then [''a.js'']
         else if glob = ''b.js'' then [''b.js'']
         else [''a.js'', ''b.js'', ''c.js''])\<rparr>"

definition sample_world :: world where
  "sample_world =
     \<lparr>files = [''a.js'' \<mapsto> default_react_source, ''b.js'' \<mapsto> ''(('',
               ''c.js'' \<mapsto> other_module_source],
      unwritable = {}, stdout = [], stderr = []\<rparr>"

section \<open>The loop over the specifiers\<close>

lemma specifiers_loop_eq:
  "specifiers_loop i specifiers = take i specifiers @ map replace_default (drop i specifiers)"
proof (induction i specifiers rule: specifiers_loop.induct)
  case (1 i specifiers)
  show ?case
  proof (cases "i < length specifiers")
    case False
    then show ?thesis by (simp add: specifiers_loop.simps)
  next
    case True
    then have split: "drop i specifiers = specifiers ! i # drop (Suc i) specifiers"
      by (simp add: Cons_nth_drop_Suc)
    show ?thesis
    proof (cases "specifiers ! i")
      case (ImportDefaultSpecifier localIdent l)
      with True "1.IH"(1)[OF True ImportDefaultSpecifier] split show ?thesis
        by (subst specifiers_loop.simps)
           (simp add: importNamespaceSpecifier_def take_Suc_conv_app_nth)
    next
      case (ImportNamespaceSpecifier localIdent l)
      with True "1.IH"(2)[OF True ImportNamespaceSpecifier] split show ?thesis
        by (subst specifiers_loop.simps) (simp add: take_Suc_conv_app_nth)
    next
      case (ImportSpecifier imported localIdent l)
      with True "1.IH"(3)[OF True ImportSpecifier] split show ?thesis
        by (subst specifiers_loop.simps) (simp add: take_Suc_conv_app_nth)
    qed
  qed
qed

lemma specifiers_loop_map: "specifiers_loop 0 specifiers = map replace_default specifiers"
  by (simp add: specifiers_loop_eq)

lemma replace_default_idem: "replace_default (replace_default s) = replace_default s"
  by (cases s) simp_all

lemma codemod_statement_idem: "codemod_statement (codemod_statement s) = codemod_statement s"
  by (induction s rule: codemod_statement.induct) (simp_all add: specifiers_loop_map replace_default_idem)

lemma codemod_idem: "codemod (codemod ast fp src) fp' src' = codemod ast fp src"
  by (simp add: codemod_def codemod_statement_idem)

section \<open>One file, and the loop over the files\<close>

lemma console_log_fields [simp]:
  "files (console_log line w) = files w"
  "unwritable (console_log line w) = unwritable w"
  "stderr (console_log line w) = stderr w"
  "stdout (console_log line w) = stdout w @ [line]"
  by (simp_all add: console_log_def)

lemma console_error_fields [simp]:
  "files (console_error line w) = files w"
  "unwritable (console_error line w) = unwritable w"
  "stdout (console_error line w) = stdout w"
  "stderr (console_error line w) = stderr w @ [line]"
  by (simp_all add: console_error_def)

lemma file_result_cong:
  "files w' file = files w file \<Longrightarrow> (file \<in> unwritable w') = (file \<in> unwritable w) \<Longrightarrow>
   file_result lib n w' file = file_result lib n w file"
  by (simp add: file_result_def readFileSync_def split: option.split sum.split)

lemma file_report_cong:
  assumes "files w' file = files w file" "(file \<in> unwritable w') = (file \<in> unwritable w)"
  shows "file_report lib n w' file = file_report lib n w file"
proof -
  have "file_result lib n w' file = file_result lib n w file"
    using assms by (rule file_result_cong)
  then show ?thesis
    using assms(1) by (simp add: file_report_def readFileSync_def)
qed

lemma transform_one_fails:
  assumes "file_result lib n w file = Inl err"
  shows "\<exists>w'. transform_one lib n file w = (Inl err, w') \<and> files w' = files w
           \<and> unwritable w' = unwritable w \<and> stderr w' = stderr w"
  using assms
  by (auto simp: transform_one_def file_result_def readFileSync_def writeFileSync_def Let_def
           split: option.splits sum.splits if_splits)

lemma transform_one_succeeds:
  assumes "file_result lib n w file = Inr newSource"
  shows "\<exists>w'. transform_one lib n file w = (Inr (), w')
           \<and> files w' = (files w)(file \<mapsto> newSource)
           \<and> unwritable w' = unwritable w \<and> stderr w' = stderr w
           \<and> stdout w' = stdout w @ file_report lib n w file"
  using assms
  by (auto simp: transform_one_def file_result_def file_report_def readFileSync_def
                 writeFileSync_def Let_def
           split: option.splits sum.splits if_splits)



lemma transform_all_succeeds:
  assumes "distinct fs" "\<forall>f \<in> set fs. file_result lib n w f = Inr (new f)"
  shows "\<exists>w'. transform_all lib n fs w = (Inr (), w')
           \<and> files w' = (\<lambda>p. if p \<in> set fs then Some (new p) else files w p)
           \<and> unwritable w' = unwritable w \<and> stderr w' = stderr w
           \<and> stdout w' = stdout w @ concat (map (file_report lib n w) fs)"
  using assms
proof (induction fs arbitrary: w)
  case Nil
  then show ?case by simp
next
  case (Cons f fs)
  from Cons.prems have "file_result lib n w f = Inr (new f)" by simp
  from transform_one_succeeds [OF this] obtain w1 where
    one: "transform_one lib n f w = (Inr (), w1)"
    and w1: "files w1 = (files w)(f \<mapsto> new f)" "unwritable w1 = unwritable w"
      "stderr w1 = stderr w" "stdout w1 = stdout w @ file_report lib n w f"
    by blast
  have same: "file_result lib n w1 g = file_result lib n w g"
             "file_report lib n w1 g = file_report lib n w g" if "g \<in> set fs" for g
    using that Cons.prems(1) w1
    by (auto intro!: file_result_cong file_report_cong)
  with Cons.prems have "\<forall>g \<in> set fs. file_result lib n w1 g = Inr (new g)" by simp
  moreover from Cons.prems have "distinct fs" by simp
  ultimately obtain w' where
    rest: "transform_all lib n fs w1 = (Inr (), w')"
    and w': "files w' = (\<lambda>p. if p \<in> set fs then Some (new p) else files w1 p)"
      "unwritable w' = unwritable w1" "stderr w' = stderr w1"
      "stdout w' = stdout w1 @ concat (map (file_report lib n w1) fs)"
    using Cons.IH [of w1] by blast
  have reports: "map (file_report lib n w1) fs = map (file_report lib n w) fs"
    using same by simp
  have "transform_all lib n (f # fs) w = (Inr (), w')"
    using one rest by simp
  moreover have "files w' = (\<lambda>p. if p \<in> set (f # fs) then Some (new p) else files w p)"
  proof (rule ext)
    fix p show "files w' p = (if p \<in> set (f # fs) then Some (new p) else files w p)"
      by (cases "p = f") (simp_all add: w'(1) w1(1))
  qed
  moreover have "unwritable w' = unwritable w" "stderr w' = stderr w"
    by (simp_all add: w' w1)
  moreover have "stdout w' = stdout w @ concat (map (file_report lib n w) (f # fs))"
    by (simp add: w'(4) w1(4) reports)
  ultimately show ?case by blast
qed



lemma transform_all_fails:
  assumes "distinct (pre @ [f])"
    and "\<forall>g \<in> set pre. file_result lib n w g = Inr (new g)"
    and "file_result lib n w f = Inl err"
  shows "\<exists>w'. transform_all lib n (pre @ f # post) w = (Inl err, w')
           \<and> files w' = (\<lambda>p. if p \<in> set pre then Some (new p) else files w p)
           \<and> unwritable w' = unwritable w \<and> stderr w' = stderr w"
  using assms
proof (induction pre arbitrary: w)
  case Nil
  from transform_one_fails [OF Nil.prems(3)] show ?case by auto
next
  case (Cons g pre)
  from Cons.prems have "file_result lib n w g = Inr (new g)" by simp
  from transform_one_succeeds [OF this] obtain w1 where
    one: "transform_one lib n g w = (Inr (), w1)"
    and w1: "files w1 = (files w)(g \<mapsto> new g)" "unwritable w1 = unwritable w"
      "stderr w1 = stderr w"
    by blast
  have same: "file_result lib n w1 h = file_result lib n w h" if "h \<noteq> g" for h
    using that w1 by (auto intro!: file_result_cong)
  from Cons.prems(1) have "f \<noteq> g" "\<forall>h \<in> set pre. h \<noteq> g" by auto
  with same Cons.prems have "\<forall>h \<in> set pre. file_result lib n w1 h = Inr (new h)"
    "file_result lib n w1 f = Inl err" by simp_all
  moreover from Cons.prems have "distinct (pre @ [f])" by simp
  ultimately obtain w' where
    rest: "transform_all lib n (pre @ f # post) w1 = (Inl err, w')"
    and w': "files w' = (\<lambda>p. if p \<in> set pre then Some (new p) else files w1 p)"
      "unwritable w' = unwritable w1" "stderr w' = stderr w1"
    using Cons.IH [of w1] by blast
  have "transform_all lib n ((g # pre) @ f # post) w = (Inl err, w')"
    using one rest by simp
  moreover have "files w' = (\<lambda>p. if p \<in> set (g # pre) then Some (new p) else files w p)"
  proof (rule ext)
    fix p show "files w' p = (if p \<in> set (g # pre) then Some (new p) else files w p)"
      by (cases "p = g") (simp_all add: w'(1) w1(1))
  qed
  moreover have "unwritable w' = unwritable w" "stderr w' = stderr w"
    by (simp_all add: w' w1)
  ultimately show ?case by blast
qed



lemma main_no_name:
  assumes "element (splice_1_1 argv) 2 = None \<or> element (splice_1_1 argv) 2 = Some []"
  shows "main lib argv w =
           (Inl missing_codemod_name,
            console_log ''\<newline>\<newline>--- Starting codemod run. ---'' w)"
  using assms by (auto simp: main_def Let_def)

lemma main_named:
  assumes "element (splice_1_1 argv) 2 = Some n" "n \<noteq> []"
  shows "\<exists>w4. files w4 = files w \<and> unwritable w4 = unwritable w \<and> stderr w4 = stderr w
           \<and> stdout w4 =
               stdout w
               @ [''\<newline>\<newline>--- Starting codemod run. ---'',
                  ''Searching for files matching: '' @ glob_argument (splice_1_1 argv),
                  found_message (globby_sync lib (glob_argument (splice_1_1 argv)))]
               @ (if globby_sync lib (glob_argument (splice_1_1 argv)) = [] then []
                  else [files_message (globby_sync lib (glob_argument (splice_1_1 argv)))])
           \<and> main lib argv w =
               (case transform_all lib n (globby_sync lib (glob_argument (splice_1_1 argv))) w4 of
                  (Inl err, w5) \<Rightarrow> (Inl err, w5)
                | (Inr _, w5) \<Rightarrow> (Inr (), console_log ''All done!'' w5))"
proof -
  define fs where "fs = globby_sync lib (glob_argument (splice_1_1 argv))"
  define w3 where "w3 =
    console_log (found_message fs)
      (console_log (''Searching for files matching: '' @ glob_argument (splice_1_1 argv))
         (console_log ''\<newline>\<newline>--- Starting codemod run. ---'' w))"
  define w4 where "w4 = (if length fs > 0 then console_log (files_message fs) w3 else w3)"
  have "main lib argv w =
          (case transform_all lib n fs w4 of
             (Inl err, w5) \<Rightarrow> (Inl err, w5)
           | (Inr _, w5) \<Rightarrow> (Inr (), console_log ''All done!'' w5))"
    using assms by (simp add: main_def Let_def w4_def w3_def fs_def)
  moreover have "files w4 = files w" "unwritable w4 = unwritable w" "stderr w4 = stderr w"
    by (simp_all add: w4_def w3_def)
  moreover have "stdout w4 =
      stdout w
      @ [''\<newline>\<newline>--- Starting codemod run. ---'',
         ''Searching for files matching: '' @ glob_argument (splice_1_1 argv),
         found_message fs]
      @ (if fs = [] then [] else [files_message fs])"
    by (simp add: w4_def w3_def)
  ultimately show ?thesis unfolding fs_def by blast
qed

section \<open>The codemod on the tree\<close>

lemma codemod_statement_eq:
  "codemod_statement s =
     (case s of
        ImportDeclaration specifiers (StringLiteral v sl) l \<Rightarrow>
          if v = ''react''
          then ImportDeclaration (map replace_default specifiers) (StringLiteral v sl) l
          else s
      | _ \<Rightarrow> s)"
  by (induction s rule: codemod_statement.induct) (simp_all add: specifiers_loop_map)

lemma not_default_replace_default: "\<not> is_default (replace_default s)"
  by (cases s) simp_all

text \<open>
  C10, as amended: the statements the codemod visits are those of the program's body. For
  every statement of the body that is an import declaration whose source is the string
  literal \<open>"react"\<close>, each default specifier is replaced in place by a namespace specifier
  around the same local identifier node (whatever its name), every other specifier stays what
  and where it is, and the list keeps its length (\<open>map replace_default\<close>); every other
  statement of the body, and the body's length, are unchanged.
\<close>

theorem react_to_star_import_top_level:
  "length (body (codemod ast filepath source)) = length (body ast) \<and>
   (\<forall>i < length (body ast).
      body (codemod ast filepath source) ! i =
        (case body ast ! i of
           ImportDeclaration specifiers (StringLiteral v sl) l \<Rightarrow>
             if v = ''react''
             then ImportDeclaration (map replace_default specifiers) (StringLiteral v sl) l
             else body ast ! i
         | _ \<Rightarrow> body ast ! i))"
  by (simp add: codemod_def codemod_statement_eq)

text \<open>
  The theorem at \<^verbatim>\<open>import Foo, { useState } from "react";\<close> followed by a call: the default
  specifier \<open>Foo\<close> becomes a namespace specifier around the same identifier, the named
  specifier and the call stay.
\<close>

theorem react_to_star_import_top_level_witness:
  "0 < length (body mixed_react_tree) \<and>
   body (codemod mixed_react_tree ''a.js'' []) =
     [ImportDeclaration
        [ImportNamespaceSpecifier (Identifier ''Foo'' (Some (7, 10))) None,
         ImportSpecifier (Identifier ''useState'' (Some (14, 22)))
           (Identifier ''useState'' (Some (14, 22))) (Some (14, 22))]
        (StringLiteral ''react'' (Some (30, 37))) (Some (0, 38)),
      ExpressionStatement ''run()'' (Some (39, 45))]"
proof -
  let ?out = "body (codemod mixed_react_tree ''a.js'' [])"
  note top = react_to_star_import_top_level [of mixed_react_tree "''a.js''" "[]"]
  have len: "length ?out = 2"
    using top by (simp add: mixed_react_tree_def)
  have "0 < length (body mixed_react_tree)" "1 < length (body mixed_react_tree)"
    by (simp_all add: mixed_react_tree_def)
  with top have
    "?out ! 0 = ImportDeclaration
        [ImportNamespaceSpecifier (Identifier ''Foo'' (Some (7, 10))) None,
         ImportSpecifier (Identifier ''useState'' (Some (14, 22)))
           (Identifier ''useState'' (Some (14, 22))) (Some (14, 22))]
        (StringLiteral ''react'' (Some (30, 37))) (Some (0, 38))"
    "?out ! 1 = ExpressionStatement ''run()'' (Some (39, 45))"
    by (simp_all add: mixed_react_tree_def)
  moreover from len have "?out = [?out ! 0, ?out ! 1]"
    by (cases ?out; cases "tl ?out") auto
  ultimately show ?thesis
    using \<open>0 < length (body mixed_react_tree)\<close> by simp
qed

text \<open>
  C10 as stated fails: in \<^verbatim>\<open>{ import React from "react"; }\<close> the import declaration from
  \<open>"react"\<close> stands inside a block, the codemod leaves the tree as it is, and the default
  specifier is still there.
\<close>

theorem nested_import_keeps_default:
  "codemod nested_react_tree ''a.js'' nested_react_source = nested_react_tree \<and>
   list_ex default_import_from_react
     (all_import_declarations (codemod nested_react_tree ''a.js'' nested_react_source))"
  by (simp add: codemod_def nested_react_tree_def all_import_declarations_def)

text \<open>
  C8, as amended: applying the codemod to its own output changes nothing. After one
  application no statement of the program's body is an import from \<open>"react"\<close> with a default
  specifier, so the second application is the identity on the tree, and whatever the printer
  is, the text printed for the tree is the same.
\<close>

theorem react_to_star_import_idempotent:
  "codemod (codemod ast filepath source) filepath source = codemod ast filepath source \<and>
   \<not> list_ex default_import_from_react (body (codemod ast filepath source)) \<and>
   recast_print lib (f\<lparr>program := codemod (codemod ast filepath source) filepath source\<rparr>) =
     recast_print lib (f\<lparr>program := codemod ast filepath source\<rparr>)"
proof -
  have "\<not> default_import_from_react (codemod_statement s)" for s
    by (induction s rule: codemod_statement.induct)
       (simp_all add: specifiers_loop_map list_ex_iff not_default_replace_default)
  then have "\<not> list_ex default_import_from_react (body (codemod ast filepath source))"
    by (simp add: codemod_def list_ex_iff)
  then show ?thesis
    by (simp add: codemod_idem)
qed

text \<open>
  C8 as stated fails in its middle part: after one application to
  \<^verbatim>\<open>{ { import R from "react"; } }\<close> an import from \<open>"react"\<close> still has its default
  specifier.
\<close>

theorem default_remains_in_nested_import:
  "list_ex default_import_from_react
     (all_import_declarations (codemod deep_react_tree ''b.js'' deep_react_source))"
  by (simp add: codemod_def deep_react_tree_def all_import_declarations_def)

section \<open>The lookup of the codemod\<close>

text \<open>
  C9 at the name \<open>toString\<close>, which is not a key of the registry: the lookup finds
  \<open>Object.prototype.toString\<close>, no error about the name is raised, the function is called, and
  the file's tree is printed as it was parsed.
\<close>

theorem inherited_name_is_called:
  "''toString'' \<notin> set (object_keys codemods) \<and>
   transformFile lib ''toString'' filepath source =
     (case recast_parse lib source filepath of
        Inl err \<Rightarrow> Inl err
      | Inr ast \<Rightarrow> Inr (recast_print lib ast))"
  by (simp add: object_keys_def codemods_def transformFile_def get_property_def
        object_prototype_methods_def split: sum.split)

section \<open>The run\<close>

lemma transform_one_Inr:
  assumes "transform_one lib n f w = (Inr u, w')"
  shows "\<exists>new. file_result lib n w f = Inr new"
proof (cases "file_result lib n w f")
  case (Inl err)
  from transform_one_fails [OF Inl] assms show ?thesis by auto
next
  case (Inr new)
  then show ?thesis by blast
qed

lemma transform_one_stderr: "stderr (snd (transform_one lib n f w)) = stderr w"
proof (cases "file_result lib n w f")
  case (Inl err)
  from transform_one_fails [OF Inl] show ?thesis by auto
next
  case (Inr new)
  from transform_one_succeeds [OF Inr] show ?thesis by auto
qed

lemma transform_all_stderr: "stderr (snd (transform_all lib n fs w)) = stderr w"
proof (induction fs arbitrary: w)
  case Nil
  show ?case by simp
next
  case (Cons f fs)
  obtain r w1 where one: "transform_one lib n f w = (r, w1)" by (cases "transform_one lib n f w")
  with transform_one_stderr [of lib n f w] have "stderr w1 = stderr w" by simp
  with one Cons.IH [of w1] show ?case by (cases r) simp_all
qed

lemma transform_all_Inr:
  assumes "distinct fs" "transform_all lib n fs w = (Inr u, w')"
  shows "\<forall>f \<in> set fs. \<exists>new. file_result lib n w f = Inr new"
  using assms
proof (induction fs arbitrary: w)
  case Nil
  show ?case by simp
next
  case (Cons f fs)
  obtain r w1 where one: "transform_one lib n f w = (r, w1)" by (cases "transform_one lib n f w")
  with Cons.prems(2) obtain u1 where r: "r = Inr u1" by (cases r) auto
  with one Cons.prems(2) have rest: "transform_all lib n fs w1 = (Inr u, w')" by simp
  from transform_one_Inr one r obtain new where new: "file_result lib n w f = Inr new" by blast
  from transform_one_succeeds [OF new] one have
    w1: "files w1 = (files w)(f \<mapsto> new)" "unwritable w1 = unwritable w" by auto
  have "file_result lib n w1 g = file_result lib n w g" if "g \<in> set fs" for g
    using that Cons.prems(1) w1 by (auto intro!: file_result_cong)
  moreover from Cons.prems(1) have "distinct fs" by simp
  from Cons.IH [OF this rest] have "\<forall>g \<in> set fs. \<exists>new. file_result lib n w1 g = Inr new" .
  ultimately show ?case using new by auto
qed

lemma nth_not_in_take:
  assumes "distinct fs" "k \<le> i" "i < length fs"
  shows "fs ! i \<notin> set (take k fs)"
proof
  assume "fs ! i \<in> set (take k fs)"
  then obtain j where "j < length (take k fs)" "take k fs ! j = fs ! i"
    by (auto simp: in_set_conv_nth)
  then have "j < k" "j < length fs" "fs ! j = fs ! i" by simp_all
  with assms show False by (simp add: nth_eq_iff_index_eq)
qed

text \<open>The sample inputs, evaluated.\<close>

lemmas sample_defs =
  sample_library_def sample_world_def default_react_source_def default_react_tree_def
  star_react_source_def star_react_tree_def named_react_source_def named_react_tree_def
  other_module_source_def other_module_tree_def

lemmas run_defs =
  file_result_def readFileSync_def transformFile_def get_property_def codemods_def
  object_prototype_methods_def codemod_def specifiers_loop_map no_such_codemod_def
  object_keys_def

lemma sample_a: "file_result sample_library ''react-to-star-import'' sample_world ''a.js'' =
    Inr star_react_source"
  by (simp add: sample_defs run_defs)

lemma sample_b: "file_result sample_library ''react-to-star-import'' sample_world ''b.js'' =
    Inl (SyntaxError ''Unexpected token (1:2)'')"
  by (simp add: sample_defs run_defs)

lemma sample_argv:
  "element (splice_1_1 [''xode'', ''xode'', ''run-codemod.ts'', n, g]) 2 = Some n"
  "glob_argument (splice_1_1 [''xode'', ''xode'', ''run-codemod.ts'', n, ''*.js'']) = ''*.js''"
  "glob_argument (splice_1_1 [''xode'', ''xode'', ''run-codemod.ts'', n, ''a.js'']) = ''a.js''"
  "glob_argument (splice_1_1 [''xode'', ''xode'', ''run-codemod.ts'', n, ''b.js'']) = ''b.js''"
  by (simp_all add: element_def splice_1_1_def glob_argument_def)

text \<open>
  C3: a run over the files \<open>fs\<close> (each path once) in which the files before position \<open>k\<close>
  are read, transformed and written, and the file at position \<open>k\<close> raises \<open>err\<close> (while it
  is read, parsed, looked up, transformed or written). The run ends with \<open>err\<close>; the files
  before \<open>k\<close> hold the text written to them; the file at \<open>k\<close> and every later file are as
  they were; and the error is reported once: \<open>Codemod failed:\<close> and its stack are all that
  is added to the error output.
\<close>

theorem fail_fast:
  assumes name: "element (splice_1_1 argv) 2 = Some n" "n \<noteq> []"
    and fs: "globby_sync lib (glob_argument (splice_1_1 argv)) = fs" "distinct fs"
    and k: "k < length fs"
    and before: "\<forall>i<k. file_result lib n w (fs ! i) = Inr (new (fs ! i))"
    and failing: "file_result lib n w (fs ! k) = Inl err"
  shows "fst (main lib argv w) = Inl err \<and>
         (\<forall>i<k. files (snd (script lib argv w)) (fs ! i) = Some (new (fs ! i))) \<and>
         (\<forall>i. k \<le> i \<and> i < length fs \<longrightarrow>
              files (snd (script lib argv w)) (fs ! i) = files w (fs ! i)) \<and>
         stderr (snd (script lib argv w)) = stderr w @ [''Codemod failed:'', stack err]"
proof -
  from main_named [OF name, of w lib] fs(1) obtain w4 where
    w4: "files w4 = files w" "unwritable w4 = unwritable w" "stderr w4 = stderr w"
    and run: "main lib argv w =
               (case transform_all lib n fs w4 of
                  (Inl err, w5) \<Rightarrow> (Inl err, w5)
                | (Inr _, w5) \<Rightarrow> (Inr (), console_log ''All done!'' w5))"
    by auto
  have same: "file_result lib n w4 g = file_result lib n w g" for g
    using w4 by (auto intro!: file_result_cong)
  have split: "fs = take k fs @ fs ! k # drop (Suc k) fs"
    using k by (simp add: id_take_nth_drop [symmetric])
  have "distinct (take k fs @ [fs ! k])"
    using fs(2) k by (simp add: take_Suc_conv_app_nth [symmetric])
  moreover have "\<forall>g \<in> set (take k fs). file_result lib n w4 g = Inr (new g)"
    using before k by (auto simp: in_set_conv_nth same)
  moreover have "file_result lib n w4 (fs ! k) = Inl err"
    using failing by (simp add: same)
  ultimately obtain w5 where
    loop: "transform_all lib n (take k fs @ fs ! k # drop (Suc k) fs) w4 = (Inl err, w5)"
    and w5: "files w5 = (\<lambda>p. if p \<in> set (take k fs) then Some (new p) else files w4 p)"
      "stderr w5 = stderr w4"
    using transform_all_fails [of "take k fs" "fs ! k" lib n w4 new err "drop (Suc k) fs"]
    by blast
  from loop split have "transform_all lib n fs w4 = (Inl err, w5)" by simp
  with run have main: "main lib argv w = (Inl err, w5)" by simp
  then have end_world: "snd (script lib argv w) =
      console_error (stack err) (console_error ''Codemod failed:'' w5)"
    by (simp add: script_def)
  have "files (snd (script lib argv w)) (fs ! i) = Some (new (fs ! i))" if "i < k" for i
  proof -
    from that k have "fs ! i \<in> set (take k fs)"
      by (auto simp: in_set_conv_nth intro!: exI [of _ i])
    then show ?thesis by (simp add: end_world w5)
  qed
  moreover have "files (snd (script lib argv w)) (fs ! i) = files w (fs ! i)"
    if "k \<le> i" "i < length fs" for i
    using nth_not_in_take [OF fs(2) that] by (simp add: end_world w5 w4)
  moreover have "stderr (snd (script lib argv w)) = stderr w @ [''Codemod failed:'', stack err]"
    by (simp add: end_world w5 w4)
  ultimately show ?thesis using main by simp
qed

text \<open>
  The theorem on three files of which the second does not parse: the first is rewritten, the
  second and the third are as they were, one error is reported.
\<close>

theorem fail_fast_witness:
  "files (snd (script sample_library
      [''xode'', ''xode'', ''run-codemod.ts'', ''react-to-star-import'', ''*.js'']
      sample_world)) ''a.js'' = Some ''import * as React from \"react\";'' \<and>
   files (snd (script sample_library
      [''xode'', ''xode'', ''run-codemod.ts'', ''react-to-star-import'', ''*.js'']
      sample_world)) ''b.js'' = Some ''(('' \<and>
   files (snd (script sample_library
      [''xode'', ''xode'', ''run-codemod.ts'', ''react-to-star-import'', ''*.js'']
      sample_world)) ''c.js'' = Some ''import Something from \"other-module\";'' \<and>
   stderr (snd (script sample_library
      [''xode'', ''xode'', ''run-codemod.ts'', ''react-to-star-import'', ''*.js'']
      sample_world)) = [''Codemod failed:'', ''SyntaxError: Unexpected token (1:2)'']"
proof -
  let ?argv = "[''xode'', ''xode'', ''run-codemod.ts'', ''react-to-star-import'', ''*.js'']"
  let ?fs = "[''a.js'', ''b.js'', ''c.js'']"
  have fs: "globby_sync sample_library (glob_argument (splice_1_1 ?argv)) = ?fs"
    by (simp add: sample_argv) (simp add: sample_library_def)
  have before: "\<forall>i<1. file_result sample_library ''react-to-star-import'' sample_world (?fs ! i)
      = Inr ((\<lambda>_. star_react_source) (?fs ! i))"
    by (simp add: sample_a)
  have failing: "file_result sample_library ''react-to-star-import'' sample_world (?fs ! 1)
      = Inl (SyntaxError ''Unexpected token (1:2)'')"
    by (simp add: sample_b)
  have "''react-to-star-import'' \<noteq> []" "distinct ?fs" "1 < length ?fs"
    by simp_all
  note run = fail_fast [OF sample_argv(1) this(1) fs this(2,3) before failing]
  from run have first: "\<forall>i<1. files (snd (script sample_library ?argv sample_world)) (?fs ! i)
      = Some star_react_source" by blast
  from run have others: "\<forall>i. 1 \<le> i \<and> i < length ?fs \<longrightarrow>
      files (snd (script sample_library ?argv sample_world)) (?fs ! i)
        = files sample_world (?fs ! i)" by blast
  from first [rule_format, of 0]
  have "files (snd (script sample_library ?argv sample_world)) ''a.js'' = Some star_react_source"
    by simp
  moreover from others [rule_format, of 1]
  have "files (snd (script sample_library ?argv sample_world)) ''b.js''
      = files sample_world ''b.js''" by simp
  moreover from others [rule_format, of 2]
  have "files (snd (script sample_library ?argv sample_world)) ''c.js''
      = files sample_world ''c.js''" by simp
  moreover from run have "stderr (snd (script sample_library ?argv sample_world)) =
      stderr sample_world @ [''Codemod failed:'', stack (SyntaxError ''Unexpected token (1:2)'')]"
    by blast
  ultimately show ?thesis
    by (simp add: sample_world_def star_react_source_def other_module_source_def)
qed

section \<open>The end of a run\<close>

lemma main_stderr: "stderr (snd (main lib argv w)) = stderr w"
proof (cases "element (splice_1_1 argv) 2 = None \<or> element (splice_1_1 argv) 2 = Some []")
  case True
  from main_no_name [OF True] show ?thesis by simp
next
  case False
  then obtain n where name: "element (splice_1_1 argv) 2 = Some n" "n \<noteq> []" by auto
  from main_named [OF name, of w lib] obtain w4 where
    w4: "stderr w4 = stderr w"
    and run: "main lib argv w =
               (case transform_all lib n (globby_sync lib (glob_argument (splice_1_1 argv))) w4 of
                  (Inl err, w5) \<Rightarrow> (Inl err, w5)
                | (Inr _, w5) \<Rightarrow> (Inr (), console_log ''All done!'' w5))"
    by auto
  obtain r w5 where
    loop: "transform_all lib n (globby_sync lib (glob_argument (splice_1_1 argv))) w4 = (r, w5)"
    by (cases "transform_all lib n (globby_sync lib (glob_argument (splice_1_1 argv))) w4")
  with transform_all_stderr [of lib n "globby_sync lib (glob_argument (splice_1_1 argv))" w4]
  have "stderr w5 = stderr w4" by simp
  with run loop w4 show ?thesis by (cases r) simp_all
qed

lemma main_Inr_last:
  assumes "main lib argv w = (Inr u, w')"
  shows "last (stdout w') = ''All done!''"
proof (cases "element (splice_1_1 argv) 2 = None \<or> element (splice_1_1 argv) 2 = Some []")
  case True
  from main_no_name [OF True] assms show ?thesis by simp
next
  case False
  then obtain n where name: "element (splice_1_1 argv) 2 = Some n" "n \<noteq> []" by auto
  from main_named [OF name, of w lib] obtain w4 where
    run: "main lib argv w =
               (case transform_all lib n (globby_sync lib (glob_argument (splice_1_1 argv))) w4 of
                  (Inl err, w5) \<Rightarrow> (Inl err, w5)
                | (Inr _, w5) \<Rightarrow> (Inr (), console_log ''All done!'' w5))"
    by auto
  obtain r w5 where
    loop: "transform_all lib n (globby_sync lib (glob_argument (splice_1_1 argv))) w4 = (r, w5)"
    by (cases "transform_all lib n (globby_sync lib (glob_argument (splice_1_1 argv))) w4")
  with run assms show ?thesis by (cases r) auto
qed

text \<open>
  C5, as amended: every error raised in \<open>main\<close> is caught by the script, which prints
  \<open>Codemod failed:\<close> and the error's stack to the error output and then ends; nothing sets
  an exit status, so the process ends with status 0, as it does after a successful run. A
  successful run prints nothing to the error output and ends its output with \<open>All done!\<close>.
\<close>

theorem caught_error_exit_status:
  "exit_status (fst (script lib argv w)) = 0 \<and>
   (case main lib argv w of
      (Inl err, w') \<Rightarrow>
        stderr (snd (script lib argv w)) = stderr w @ [''Codemod failed:'', stack err] \<and>
        stdout (snd (script lib argv w)) = stdout w'
    | (Inr _, w') \<Rightarrow>
        stderr (snd (script lib argv w)) = stderr w \<and>
        last (stdout (snd (script lib argv w))) = ''All done!'')"
proof -
  obtain r w' where run: "main lib argv w = (r, w')" by (cases "main lib argv w")
  with main_stderr [of lib argv w] have err: "stderr w' = stderr w" by simp
  show ?thesis
  proof (cases r)
    case (Inl e)
    with run err show ?thesis by (simp add: script_def exit_status_def)
  next
    case (Inr u)
    with run main_Inr_last [of lib argv w u w'] err show ?thesis
      by (simp add: script_def exit_status_def)
  qed
qed

text \<open>
  C5 as stated fails: a run without a codemod name raises an error, and the exit status is 0,
  not a nonzero one.
\<close>

theorem missing_name_exit_status:
  "fst (main sample_library [''xode'', ''xode'', ''run-codemod.ts''] sample_world) =
     Inl (Error (''You must specify a codemod to run as the first command-line argument. ''
                 @ ''Valid codemod names: react-to-star-import.'')) \<and>
   exit_status (fst (script sample_library [''xode'', ''xode'', ''run-codemod.ts''] sample_world))
     = 0"
  by (simp add: main_def script_def exit_status_def element_def splice_1_1_def Let_def
        missing_codemod_name_def object_keys_def codemods_def)

section \<open>A name that is not in the registry\<close>

lemma unknown_name_result:
  assumes "get_property n = None"
  shows "file_result lib n w f =
           (case files w f of
              None \<Rightarrow> Inl (SystemError ''ENOENT'')
            | Some source \<Rightarrow>
                (case recast_parse lib source f of
                   Inl err \<Rightarrow> Inl err
                 | Inr ast \<Rightarrow> Inl (no_such_codemod n)))"
  using assms
  by (simp add: file_result_def readFileSync_def transformFile_def
           split: option.split sum.split)

lemma unknown_name_run:
  assumes "element (splice_1_1 argv) 2 = Some n" "n \<noteq> []" "get_property n = None"
  shows "files (snd (script lib argv w)) = files w \<and>
         fst (main lib argv w) =
           (case globby_sync lib (glob_argument (splice_1_1 argv)) of
              [] \<Rightarrow> Inr ()
            | file # rest \<Rightarrow>
                (case files w file of
                   None \<Rightarrow> Inl (SystemError ''ENOENT'')
                 | Some source \<Rightarrow>
                     (case recast_parse lib source file of
                        Inl err \<Rightarrow> Inl err
                      | Inr ast \<Rightarrow> Inl (no_such_codemod n))))"
proof -
  let ?fs = "globby_sync lib (glob_argument (splice_1_1 argv))"
  from main_named [OF assms(1,2), of w lib] obtain w4 where
    w4: "files w4 = files w" "unwritable w4 = unwritable w"
    and run: "main lib argv w =
               (case transform_all lib n ?fs w4 of
                  (Inl err, w5) \<Rightarrow> (Inl err, w5)
                | (Inr _, w5) \<Rightarrow> (Inr (), console_log ''All done!'' w5))"
    by auto
  show ?thesis
  proof (cases ?fs)
    case Nil
    with run w4 show ?thesis by (simp add: script_def)
  next
    case (Cons f rest)
    let ?e = "case files w f of
                None \<Rightarrow> SystemError ''ENOENT''
              | Some source \<Rightarrow>
                  (case recast_parse lib source f of
                     Inl err \<Rightarrow> err
                   | Inr ast \<Rightarrow> no_such_codemod n)"
    have "file_result lib n w4 f = Inl ?e"
      by (simp add: unknown_name_result [OF assms(3)] w4 split: option.split sum.split)
    moreover have "distinct ([] @ [f])" "\<forall>g \<in> set []. file_result lib n w4 g = Inr (id g)"
      by simp_all
    ultimately obtain w5 where
      "transform_all lib n ([] @ f # rest) w4 = (Inl ?e, w5)" "files w5 = files w4"
      using transform_all_fails [of "[]" f lib n w4 id ?e rest] by auto
    with run Cons w4 have "main lib argv w = (Inl ?e, w5)" "files w5 = files w" by simp_all
    with Cons show ?thesis
      by (simp add: script_def split: option.split sum.split)
  qed
qed

text \<open>
  C6, as amended: the name is looked up for each file, after the file is read and parsed. For
  a name that the lookup does not find, no file is ever written. With no file to transform the
  run ends without an error; otherwise it ends at the first file: with the error of the read
  when the file cannot be read, with the parser's error when it does not parse, and with the
  \<open>No such codemod\<close> error only when it parses.
\<close>

theorem unknown_codemod_run:
  assumes "element (splice_1_1 argv) 2 = Some n" "n \<noteq> []" "get_property n = None"
  shows "files (snd (script lib argv w)) = files w \<and>
         fst (main lib argv w) =
           (case globby_sync lib (glob_argument (splice_1_1 argv)) of
              [] \<Rightarrow> Inr ()
            | file # rest \<Rightarrow>
                (case files w file of
                   None \<Rightarrow> Inl (SystemError ''ENOENT'')
                 | Some source \<Rightarrow>
                     (case recast_parse lib source file of
                        Inl err \<Rightarrow> Inl err
                      | Inr ast \<Rightarrow> Inl (no_such_codemod n))))"
  using assms by (rule unknown_name_run)

lemma not_a_key: "get_property ''no-such-codemod'' = None"
  by (simp add: get_property_def codemods_def object_prototype_methods_def)

text \<open>
  The theorem on the sample directory: the first file parses, the run ends with the
  \<open>No such codemod\<close> error, and the files are as they were.
\<close>

theorem unknown_codemod_run_witness:
  "get_property ''no-such-codemod'' = None \<and>
   fst (main sample_library [''xode'', ''xode'', ''run-codemod.ts'', ''no-such-codemod'']
          sample_world) =
     Inl (Error ''No such codemod: no-such-codemod. Valid codemod names: react-to-star-import.'') \<and>
   files (snd (script sample_library
                 [''xode'', ''xode'', ''run-codemod.ts'', ''no-such-codemod''] sample_world)) =
     files sample_world"
proof -
  let ?argv = "[''xode'', ''xode'', ''run-codemod.ts'', ''no-such-codemod'']"
  have name: "element (splice_1_1 ?argv) 2 = Some ''no-such-codemod''" "''no-such-codemod'' \<noteq> []"
    by (simp_all add: element_def splice_1_1_def)
  have fs: "globby_sync sample_library (glob_argument (splice_1_1 ?argv)) =
      [''a.js'', ''b.js'', ''c.js'']"
    by (simp add: element_def splice_1_1_def glob_argument_def default_glob_def sample_library_def)
  from unknown_codemod_run [OF name not_a_key, of sample_library sample_world]
  show ?thesis
    by (simp add: fs not_a_key)
       (simp add: sample_defs no_such_codemod_def object_keys_def codemods_def)
qed

text \<open>
  C6 as stated fails: when the only file of the run does not parse, the run with an unknown
  name ends with the parser's error (the file has been read and handed to the parser), not
  with the \<open>No such codemod\<close> error.
\<close>

theorem parse_error_before_lookup:
  "fst (main sample_library [''xode'', ''xode'', ''run-codemod.ts'', ''no-such-codemod'', ''b.js'']
          sample_world) = Inl (SyntaxError ''Unexpected token (1:2)'') \<and>
   fst (main sample_library [''xode'', ''xode'', ''run-codemod.ts'', ''no-such-codemod'', ''b.js'']
          sample_world) \<noteq> Inl (no_such_codemod ''no-such-codemod'')"
proof -
  let ?argv = "[''xode'', ''xode'', ''run-codemod.ts'', ''no-such-codemod'', ''b.js'']"
  have name: "element (splice_1_1 ?argv) 2 = Some ''no-such-codemod''"
    "''no-such-codemod'' \<noteq> []"
    by (simp_all add: sample_argv)
  have fs: "globby_sync sample_library (glob_argument (splice_1_1 ?argv)) = [''b.js'']"
    by (simp add: sample_argv) (simp add: sample_library_def)
  from unknown_name_run [OF name not_a_key, of sample_library sample_world]
  have "fst (main sample_library ?argv sample_world) = Inl (SyntaxError ''Unexpected token (1:2)'')"
    by (simp add: fs) (simp add: sample_defs)
  then show ?thesis by (simp add: no_such_codemod_def)
qed

section \<open>What a run writes\<close>

lemma successful_run:
  assumes name: "element (splice_1_1 argv) 2 = Some n" "n \<noteq> []"
    and fs: "globby_sync lib (glob_argument (splice_1_1 argv)) = fs" "distinct fs"
    and ok: "fst (main lib argv w) = Inr ()"
  shows "(\<forall>f \<in> set fs. \<exists>source newSource.
            files w f = Some source \<and>
            transformFile lib n f source = Inr newSource \<and>
            files (snd (main lib argv w)) f = Some newSource \<and>
            file_report lib n w f =
              [''\<newline>Transforming: '' @ f, ''--- Before: ---'', trim source,
               ''--- After: ---'', trim newSource, ''------\<newline>'']) \<and>
         stdout (snd (main lib argv w)) =
           stdout w
           @ [''\<newline>\<newline>--- Starting codemod run. ---'',
              ''Searching for files matching: '' @ glob_argument (splice_1_1 argv),
              found_message fs]
           @ (if fs = [] then [] else [files_message fs])
           @ concat (map (file_report lib n w) fs)
           @ [''All done!'']"
proof -
  from main_named [OF name, of w lib] fs(1) obtain w4 where
    w4: "files w4 = files w" "unwritable w4 = unwritable w"
      "stdout w4 =
         stdout w
         @ [''\<newline>\<newline>--- Starting codemod run. ---'',
            ''Searching for files matching: '' @ glob_argument (splice_1_1 argv),
            found_message fs]
         @ (if fs = [] then [] else [files_message fs])"
    and run: "main lib argv w =
               (case transform_all lib n fs w4 of
                  (Inl err, w5) \<Rightarrow> (Inl err, w5)
                | (Inr _, w5) \<Rightarrow> (Inr (), console_log ''All done!'' w5))"
    by auto
  have same: "file_result lib n w4 g = file_result lib n w g"
             "file_report lib n w4 g = file_report lib n w g" for g
    using w4 by (auto intro!: file_result_cong file_report_cong)
  obtain r w5 where loop: "transform_all lib n fs w4 = (r, w5)"
    by (cases "transform_all lib n fs w4")
  with run ok obtain u where r: "r = Inr u" by (cases r) auto
  from transform_all_Inr [OF fs(2)] loop r
  have all: "\<forall>f \<in> set fs. \<exists>new. file_result lib n w4 f = Inr new" by blast
  define new where "new f = projr (file_result lib n w4 f)" for f
  from all have "\<forall>f \<in> set fs. file_result lib n w4 f = Inr (new f)"
    by (auto simp: new_def)
  from transform_all_succeeds [OF fs(2) this] loop have
    w5: "files w5 = (\<lambda>p. if p \<in> set fs then Some (new p) else files w4 p)"
      "stdout w5 = stdout w4 @ concat (map (file_report lib n w4) fs)"
    by auto
  from run loop r have end_world: "snd (main lib argv w) = console_log ''All done!'' w5"
    by simp
  have "\<exists>source newSource.
            files w f = Some source \<and>
            transformFile lib n f source = Inr newSource \<and>
            files (snd (main lib argv w)) f = Some newSource \<and>
            file_report lib n w f =
              [''\<newline>Transforming: '' @ f, ''--- Before: ---'', trim source,
               ''--- After: ---'', trim newSource, ''------\<newline>'']" if "f \<in> set fs" for f
  proof -
    from all that obtain newSource where res: "file_result lib n w f = Inr newSource"
      by (auto simp: same)
    then obtain source where
      "files w f = Some source" "transformFile lib n f source = Inr newSource"
      by (auto simp: file_result_def readFileSync_def split: option.splits sum.splits if_splits)
    moreover from res that have "files (snd (main lib argv w)) f = Some newSource"
      by (simp add: end_world w5 new_def same)
    moreover from res \<open>files w f = Some source\<close> have "file_report lib n w f =
              [''\<newline>Transforming: '' @ f, ''--- Before: ---'', trim source,
               ''--- After: ---'', trim newSource, ''------\<newline>'']"
      by (simp add: file_report_def readFileSync_def)
    ultimately show ?thesis by blast
  qed
  moreover have "file_report lib n w4 = file_report lib n w"
    by (rule ext) (rule same)
  then have "stdout (snd (main lib argv w)) =
           stdout w
           @ [''\<newline>\<newline>--- Starting codemod run. ---'',
              ''Searching for files matching: '' @ glob_argument (splice_1_1 argv),
              found_message fs]
           @ (if fs = [] then [] else [files_message fs])
           @ concat (map (file_report lib n w) fs)
           @ [''All done!'']"
    by (simp add: end_world w5 w4)
  ultimately show ?thesis by blast
qed


lemma run_all_ok:
  assumes name: "element (splice_1_1 argv) 2 = Some n" "n \<noteq> []"
    and fs: "globby_sync lib (glob_argument (splice_1_1 argv)) = fs" "distinct fs"
    and all: "\<forall>f \<in> set fs. file_result lib n w f = Inr (new f)"
  shows "fst (main lib argv w) = Inr () \<and>
         files (snd (main lib argv w)) = (\<lambda>p. if p \<in> set fs then Some (new p) else files w p)"
proof -
  from main_named [OF name, of w lib] fs(1) obtain w4 where
    w4: "files w4 = files w" "unwritable w4 = unwritable w"
    and run: "main lib argv w =
               (case transform_all lib n fs w4 of
                  (Inl err, w5) \<Rightarrow> (Inl err, w5)
                | (Inr _, w5) \<Rightarrow> (Inr (), console_log ''All done!'' w5))"
    by auto
  have "file_result lib n w4 g = file_result lib n w g" for g
    using w4 by (auto intro!: file_result_cong)
  with all have "\<forall>f \<in> set fs. file_result lib n w4 f = Inr (new f)" by simp
  from transform_all_succeeds [OF fs(2) this] obtain w5 where
    "transform_all lib n fs w4 = (Inr (), w5)"
    "files w5 = (\<lambda>p. if p \<in> set fs then Some (new p) else files w4 p)"
    by blast
  with run w4 show ?thesis by (simp add: fun_eq_iff)
qed

text \<open>
  C7, as amended: \<open>main\<close> takes the codemod name and the glob and nothing else; there is no
  dry-run option. In a run that ends without an error over the files \<open>fs\<close> (each path once),
  every file is read and transformed, its text before and after is printed, and the file is
  overwritten with the printed text.
\<close>

theorem every_transformed_file_is_written:
  assumes "element (splice_1_1 argv) 2 = Some n" "n \<noteq> []"
    and "globby_sync lib (glob_argument (splice_1_1 argv)) = fs" "distinct fs"
    and "fst (main lib argv w) = Inr ()"
  shows "(\<forall>f \<in> set fs. \<exists>source newSource.
            files w f = Some source \<and>
            transformFile lib n f source = Inr newSource \<and>
            files (snd (main lib argv w)) f = Some newSource \<and>
            file_report lib n w f =
              [''\<newline>Transforming: '' @ f, ''--- Before: ---'', trim source,
               ''--- After: ---'', trim newSource, ''------\<newline>'']) \<and>
         stdout (snd (main lib argv w)) =
           stdout w
           @ [''\<newline>\<newline>--- Starting codemod run. ---'',
              ''Searching for files matching: '' @ glob_argument (splice_1_1 argv),
              found_message fs]
           @ (if fs = [] then [] else [files_message fs])
           @ concat (map (file_report lib n w) fs)
           @ [''All done!'']"
  using assms by (rule successful_run)

lemma sample_a_source:
  "files sample_world ''a.js'' = Some default_react_source"
  "transformFile sample_library ''react-to-star-import'' ''a.js'' default_react_source
     = Inr star_react_source"
  by (simp_all add: sample_defs run_defs)

text \<open>
  The theorem on a run over \<^verbatim>\<open>a.js\<close>: the file is rewritten, and the output shows its
  text before and after.
\<close>

theorem every_transformed_file_is_written_witness:
  "fst (main sample_library
          [''xode'', ''xode'', ''run-codemod.ts'', ''react-to-star-import'', ''a.js'']
          sample_world) = Inr () \<and>
   files (snd (main sample_library
          [''xode'', ''xode'', ''run-codemod.ts'', ''react-to-star-import'', ''a.js'']
          sample_world)) ''a.js'' = Some ''import * as React from \"react\";'' \<and>
   stdout (snd (main sample_library
          [''xode'', ''xode'', ''run-codemod.ts'', ''react-to-star-import'', ''a.js'']
          sample_world)) =
     [''\<newline>\<newline>--- Starting codemod run. ---'',
      ''Searching for files matching: a.js'',
      ''Found 1 file to run the codemod on:'',
      ''- a.js'',
      ''\<newline>Transforming: a.js'',
      ''--- Before: ---'',
      ''import React from \"react\";'',
      ''--- After: ---'',
      ''import * as React from \"react\";'',
      ''------\<newline>'',
      ''All done!'']"
proof -
  let ?argv = "[''xode'', ''xode'', ''run-codemod.ts'', ''react-to-star-import'', ''a.js'']"
  let ?n = "''react-to-star-import''"
  have name: "element (splice_1_1 ?argv) 2 = Some ?n" "?n \<noteq> []"
    by (simp_all add: sample_argv)
  have fs: "globby_sync sample_library (glob_argument (splice_1_1 ?argv)) = [''a.js'']"
    "distinct [''a.js'']"
    by (simp_all add: sample_argv) (simp add: sample_library_def)
  have "\<forall>f \<in> set [''a.js'']. file_result sample_library ?n sample_world f =
      Inr ((\<lambda>_. star_react_source) f)"
    by (simp add: sample_a)
  from run_all_ok [OF name fs this]
  have ok: "fst (main sample_library ?argv sample_world) = Inr ()" by simp
  note run = every_transformed_file_is_written [OF name fs ok]
  from run obtain source newSource where one:
    "files sample_world ''a.js'' = Some source"
    "transformFile sample_library ?n ''a.js'' source = Inr newSource"
    "files (snd (main sample_library ?argv sample_world)) ''a.js'' = Some newSource"
    "file_report sample_library ?n sample_world ''a.js'' =
       [''\<newline>Transforming: '' @ ''a.js'', ''--- Before: ---'', trim source,
        ''--- After: ---'', trim newSource, ''------\<newline>'']"
    by auto
  from one(1,2) have src_new: "source = default_react_source" "newSource = star_react_source"
    by (simp_all add: sample_a_source)
  have trims: "trim default_react_source = ''import React from \"react\";''"
    "trim star_react_source = ''import * as React from \"react\";''"
    by (simp_all add: trim_def is_white_space_def default_react_source_def star_react_source_def)
  have messages: "found_message [''a.js''] = ''Found 1 file to run the codemod on:''"
    "files_message [''a.js''] = ''- a.js''"
    by (simp_all add: found_message_def files_message_def show_nat.simps)
  from run have "stdout (snd (main sample_library ?argv sample_world)) =
      stdout sample_world
      @ [''\<newline>\<newline>--- Starting codemod run. ---'',
         ''Searching for files matching: '' @ glob_argument (splice_1_1 ?argv),
         found_message [''a.js'']]
      @ (if [''a.js''] = [] then [] else [files_message [''a.js'']])
      @ concat (map (file_report sample_library ?n sample_world) [''a.js''])
      @ [''All done!'']"
    by blast
  then have "stdout (snd (main sample_library ?argv sample_world)) =
     [''\<newline>\<newline>--- Starting codemod run. ---'',
      ''Searching for files matching: a.js'',
      ''Found 1 file to run the codemod on:'',
      ''- a.js'',
      ''\<newline>Transforming: a.js'',
      ''--- Before: ---'',
      ''import React from \"react\";'',
      ''--- After: ---'',
      ''import * as React from \"react\";'',
      ''------\<newline>'',
      ''All done!'']"
    by (simp add: one(4) src_new trims messages sample_argv) (simp add: sample_world_def)
  with ok one(3) src_new show ?thesis
    by (simp add: star_react_source_def)
qed

text \<open>
  C7 as stated fails: no argument makes a run dry. With \<^verbatim>\<open>--dry-run\<close> as a further
  argument the file is overwritten all the same.
\<close>

theorem file_written_whatever_the_arguments:
  "files sample_world ''a.js'' = Some ''import React from \"react\";'' \<and>
   files (snd (script sample_library
      [''xode'', ''xode'', ''run-codemod.ts'', ''react-to-star-import'', ''a.js'', ''--dry-run'']
      sample_world)) ''a.js'' = Some ''import * as React from \"react\";''"
proof -
  let ?argv =
    "[''xode'', ''xode'', ''run-codemod.ts'', ''react-to-star-import'', ''a.js'', ''--dry-run'']"
  let ?n = "''react-to-star-import''"
  have name: "element (splice_1_1 ?argv) 2 = Some ?n" "?n \<noteq> []"
    by (simp_all add: element_def splice_1_1_def)
  have fs: "globby_sync sample_library (glob_argument (splice_1_1 ?argv)) = [''a.js'']"
    "distinct [''a.js'']"
    by (simp_all add: element_def splice_1_1_def glob_argument_def sample_library_def)
  have "\<forall>f \<in> set [''a.js'']. file_result sample_library ?n sample_world f =
      Inr ((\<lambda>_. star_react_source) f)"
    by (simp add: sample_a)
  from run_all_ok [OF name fs this]
  have "fst (main sample_library ?argv sample_world) = Inr ()"
    "files (snd (main sample_library ?argv sample_world)) ''a.js'' = Some star_react_source"
    by simp_all
  then have "files (snd (script sample_library ?argv sample_world)) ''a.js''
      = Some star_react_source"
    by (cases "main sample_library ?argv sample_world") (simp add: script_def)
  then show ?thesis
    by (simp add: star_react_source_def) (simp add: sample_world_def default_react_source_def)
qed

section \<open>The scenario of the three import statements\<close>

lemma registered_codemod:
  "transformFile lib ''react-to-star-import'' filepath source =
     (case recast_parse lib source filepath of
        Inl err \<Rightarrow> Inl err
      | Inr ast \<Rightarrow> Inr (recast_print lib (ast\<lparr>program := codemod (program ast) filepath source\<rparr>)))"
  by (simp add: transformFile_def get_property_def codemods_def split: sum.split)

lemma codemod_samples:
  "codemod default_react_tree filepath source = star_react_tree"
  "codemod named_react_tree filepath source = named_react_tree"
  "codemod other_module_tree filepath source = other_module_tree"
  by (simp_all add: codemod_def specifiers_loop_map default_react_tree_def star_react_tree_def
        named_react_tree_def other_module_tree_def)

text \<open>
  C1: the three scenarios, for \<open>transformFile\<close> with the registered name. The parser and
  the printer are libraries, so their part is a hypothesis: the parser gives the trees of the
  three statements, and the printer gives back the text of an unchanged tree and
  \<^verbatim>\<open>import * as React from "react";\<close> for the tree in which the default specifier of
  \<^verbatim>\<open>import React from "react";\<close> has become a namespace specifier. The codemod's part is
  proved: it turns the first tree into that tree and leaves the other two as they are.
\<close>

theorem react_to_star_import_scenarios:
  assumes "recast_parse lib ''import React from \"react\";'' filepath =
             Inr \<lparr>program = default_react_tree, original = ''import React from \"react\";''\<rparr>"
    and "recast_print lib \<lparr>program = star_react_tree, original = ''import React from \"react\";''\<rparr>
           = ''import * as React from \"react\";''"
    and "recast_parse lib ''import { useState } from \"react\";'' filepath =
           Inr \<lparr>program = named_react_tree, original = ''import { useState } from \"react\";''\<rparr>"
    and "recast_print lib
           \<lparr>program = named_react_tree, original = ''import { useState } from \"react\";''\<rparr>
           = ''import { useState } from \"react\";''"
    and "recast_parse lib ''import Something from \"other-module\";'' filepath =
           Inr \<lparr>program = other_module_tree,
                original = ''import Something from \"other-module\";''\<rparr>"
    and "recast_print lib
           \<lparr>program = other_module_tree, original = ''import Something from \"other-module\";''\<rparr>
           = ''import Something from \"other-module\";''"
  shows "transformFile lib ''react-to-star-import'' filepath ''import React from \"react\";''
           = Inr ''import * as React from \"react\";'' \<and>
         transformFile lib ''react-to-star-import'' filepath ''import { useState } from \"react\";''
           = Inr ''import { useState } from \"react\";'' \<and>
         transformFile lib ''react-to-star-import'' filepath
             ''import Something from \"other-module\";''
           = Inr ''import Something from \"other-module\";''"
  using assms by (simp add: registered_codemod codemod_samples)

text \<open>
  The theorem with the sample library.
\<close>

theorem react_to_star_import_scenarios_witness:
  "transformFile sample_library ''react-to-star-import'' ''a.js'' ''import React from \"react\";''
     = Inr ''import * as React from \"react\";'' \<and>
   transformFile sample_library ''react-to-star-import'' ''a.js''
       ''import { useState } from \"react\";''
     = Inr ''import { useState } from \"react\";'' \<and>
   transformFile sample_library ''react-to-star-import'' ''a.js''
       ''import Something from \"other-module\";''
     = Inr ''import Something from \"other-module\";''"
proof -
  have parse:
    "recast_parse sample_library ''import React from \"react\";'' ''a.js'' =
       Inr \<lparr>program = default_react_tree, original = ''import React from \"react\";''\<rparr>"
    "recast_parse sample_library ''import { useState } from \"react\";'' ''a.js'' =
       Inr \<lparr>program = named_react_tree, original = ''import { useState } from \"react\";''\<rparr>"
    "recast_parse sample_library ''import Something from \"other-module\";'' ''a.js'' =
       Inr \<lparr>program = other_module_tree,
            original = ''import Something from \"other-module\";''\<rparr>"
    by (simp_all add: sample_library_def default_react_source_def named_react_source_def
          other_module_source_def)
  have print:
    "recast_print sample_library
       \<lparr>program = star_react_tree, original = ''import React from \"react\";''\<rparr>
       = ''import * as React from \"react\";''"
    "recast_print sample_library
       \<lparr>program = named_react_tree, original = ''import { useState } from \"react\";''\<rparr>
       = ''import { useState } from \"react\";''"
    "recast_print sample_library
       \<lparr>program = other_module_tree, original = ''import Something from \"other-module\";''\<rparr>
       = ''import Something from \"other-module\";''"
    by (simp_all add: sample_library_def star_react_source_def star_react_tree_def
          named_react_tree_def other_module_tree_def)
  from react_to_star_import_scenarios
    [OF parse(1) print(1) parse(2) print(2) parse(3) print(3)]
  show ?thesis .
qed

end
